theory Spec2Isabelle
  imports Complex_Main
begin

section \<open>The particle mesh state machine of pypm/particlemesh.py\<close>

text \<open>
  The module is a thin state machine around three collaborators that are not part of
  it: the parallel FFT library pfft (partition, local buffer, plans), the CIC kernel
  (cic.paint, cic.readout) and numpy. The collaborators are parameters of the model
  (the record \<open>engine\<close>); the methods of class ParticleMesh are functions on an explicit
  state record. Python exceptions are values of type \<open>error\<close>; a method that can raise
  returns \<open>error + result\<close>.

  The coordinate transforms are modelled with the rounding of double precision
  (binary64) arithmetic, operation by operation. Elsewhere (the scaling in \<open>r2c\<close>, the
  wavenumbers of \<open>transfer\<close>) floating-point values are exact reals: rounding is not
  modelled there. The MPI communicator, the process mesh, the profiling timers and the
  diagnostic printing under the verbose flag change nothing of the mesh state and are
  left out, and so is \<open>decompose\<close>, which only hands its argument to the domain module.
\<close>

subsection \<open>Data\<close>

datatype error = ValueError | ZeroDivisionError | IndexError

text \<open>A row of an (N, 3) position array, and a length-3 attribute of the partition.\<close>

datatype 'a vec3 = Vec3 'a 'a 'a

fun vnth :: "'a vec3 \<Rightarrow> nat \<Rightarrow> 'a" where
  "vnth (Vec3 a b c) d = (if d = 0 then a else if d = 1 then b else c)"

fun vmap :: "('a \<Rightarrow> 'b) \<Rightarrow> 'a vec3 \<Rightarrow> 'b vec3" where
  "vmap f (Vec3 a b c) = Vec3 (f a) (f b) (f c)"

text \<open>
  Double precision arithmetic on the values of doubles, which are reals. \<open>rnd x\<close> is
  the double nearest to \<open>x\<close>: 53 significant bits, a tie goes to the even neighbour, and
  below \<open>2 ^ -1022\<close> the spacing stays \<open>2 ^ -1074\<close> (gradual underflow). An operation on
  doubles is the exact operation followed by \<open>rnd\<close>; an integer becomes a double by
  \<open>rnd\<close> as well. Overflow to infinity and NaN are not modelled.
\<close>

definition round_even :: "real \<Rightarrow> int" where
  "round_even y =
     (let f = \<lfloor>y\<rfloor>; r = y - of_int f
      in if r < 1 / 2 then f else if r > 1 / 2 then f + 1 else if even f then f else f + 1)"

definition ulp_exponent :: "real \<Rightarrow> int" where
  "ulp_exponent x = max (\<lfloor>log 2 \<bar>x\<bar>\<rfloor> - 52) (- 1074)"

definition rnd :: "real \<Rightarrow> real" where
  "rnd x = (if x = 0 then 0
            else of_int (round_even (x / 2 powi ulp_exponent x)) * 2 powi ulp_exponent x)"

definition fmul :: "real \<Rightarrow> real \<Rightarrow> real" where
  "fmul a b = rnd (a * b)"

definition fdiv :: "real \<Rightarrow> real \<Rightarrow> real" where
  "fdiv a b = rnd (a / b)"


definition fsub :: "real \<Rightarrow> real \<Rightarrow> real" where
  "fsub a b = rnd (a - b)"

definition float_of_int :: "int \<Rightarrow> real" where
  "float_of_int i = rnd (of_int i)"

text \<open>The elementwise numpy operations on rows: scalar times row, row plus and minus row.\<close>

fun vscale :: "real \<Rightarrow> real vec3 \<Rightarrow> real vec3" where
  "vscale k (Vec3 a b c) = Vec3 (fmul k a) (fmul k b) (fmul k c)"


fun vsub :: "real vec3 \<Rightarrow> real vec3 \<Rightarrow> real vec3" where
  "vsub (Vec3 a b c) (Vec3 a' b' c') = Vec3 (fsub a a') (fsub b b') (fsub c c')"

datatype dtype = F8 | F4 | OtherDtype

text \<open>
  pfft.Partition, as far as the module reads it: the local real-space start
  (\<open>local_i_start\<close>) and the local transposed complex-space extent and start
  (\<open>local_no\<close>, \<open>local_o_start\<close>). The constructor always passes the three-dimensional
  mesh \<open>[Nmesh, Nmesh, Nmesh]\<close>, so \<open>partition.Ndim\<close> is 3.
\<close>

record partition =
  local_i_start :: "int vec3"
  local_no :: "nat vec3"
  local_o_start :: "int vec3"

definition Ndim :: nat where
  "Ndim = 3"

text \<open>A numpy array of reals with its shape (the k-vector arrays of \<open>transfer\<close>).\<close>

record ndarray =
  shape :: "nat list"
  data :: "real list"

text \<open>The mass argument of paint: a scalar or one value per particle.\<close>

datatype mass = Scalar real | PerParticle "real list"

text \<open>
  A transfer function receives the k-vector triplet and the complex field and mutates
  the field in place; the model returns the new contents of the field.
\<close>

type_synonym transfer_function = "ndarray list \<Rightarrow> complex list \<Rightarrow> complex list"

text \<open>
  The external collaborators. \<open>'b\<close> is pfft's local buffer: one allocation, of which
  \<open>self.real\<close> (\<open>view_input\<close>) and \<open>self.complex\<close> (\<open>view_output\<close>) are numpy views.
  Reading a view gives its elements in row-major order; \<open>assign_input r b\<close> and
  \<open>assign_output c b\<close> are the buffer after the numpy assignments \<open>real[:] = r\<close> and
  \<open>complex[:] = c\<close>. Nothing is fixed about how the two views share the allocation.
  \<open>forward_execute\<close> and \<open>backward_execute\<close> are the two plans run on the buffer.
  \<open>cic_paint\<close> returns the new contents of the field it paints into.
\<close>

record 'b engine =
  new_partition :: "dtype \<Rightarrow> int \<Rightarrow> partition"
  local_buffer :: "partition \<Rightarrow> 'b"
  view_input :: "'b \<Rightarrow> real list"
  assign_input :: "real list \<Rightarrow> 'b \<Rightarrow> 'b"
  view_output :: "'b \<Rightarrow> complex list"
  assign_output :: "complex list \<Rightarrow> 'b \<Rightarrow> 'b"
  forward_execute :: "'b \<Rightarrow> 'b"
  backward_execute :: "'b \<Rightarrow> 'b"
  cic_paint :: "real vec3 list \<Rightarrow> real list \<Rightarrow> mass \<Rightarrow> int \<Rightarrow>
                (real vec3 list \<Rightarrow> error + real vec3 list) \<Rightarrow> error + real list"
  cic_readout :: "real list \<Rightarrow> real vec3 list \<Rightarrow> int \<Rightarrow>
                  (real vec3 list \<Rightarrow> error + real vec3 list) \<Rightarrow> error + real list"

text \<open>The attributes of a ParticleMesh object that its methods read or write.\<close>

record 'b mesh =
  Nmesh :: int
  BoxSize :: real
  part :: partition
  buffer :: 'b
  stack :: "complex list list"
  verbose :: bool

subsection \<open>The methods\<close>

text \<open>
  \<open>__init__\<close>: the dtype must be f8 or f4 (ValueError otherwise); the partition and the
  buffer come from pfft; \<open>self.real[:] = 0\<close>; the plans are created with PFFT_ESTIMATE,
  which does not touch the arrays; \<open>self.stack = []\<close>.
\<close>

definition init :: "'b engine \<Rightarrow> real \<Rightarrow> int \<Rightarrow> bool \<Rightarrow> dtype \<Rightarrow> error + 'b mesh" where
  "init E boxsize nmesh verb dt =
     (if dt = F8 \<or> dt = F4 then
        (let p = new_partition E dt nmesh;
             b = local_buffer E p;
             b' = assign_input E (map (\<lambda>_. 0) (view_input E b)) b
         in Inr \<lparr>Nmesh = nmesh, BoxSize = boxsize, part = p, buffer = b',
                 stack = [], verbose = verb\<rparr>)
      else Inl ValueError)"

text \<open>
  \<open>transform\<close> and \<open>transform0\<close>: \<open>(1.0 * Nmesh / BoxSize) * x\<close>, the first shifted by
  \<open>- partition.local_i_start\<close>, row by row, in doubles: the integer Nmesh becomes a
  double, the product with 1.0, the quotient by BoxSize, the products with the
  coordinates and the differences with the start (an integer array, converted) are each
  rounded. The division raises when BoxSize is 0.
\<close>

definition transform :: "'b mesh \<Rightarrow> real vec3 list \<Rightarrow> error + real vec3 list" where
  "transform s x =
     (if BoxSize s = 0 then Inl ZeroDivisionError
      else Inr (map (\<lambda>p. vsub (vscale (fdiv (fmul 1.0 (float_of_int (Nmesh s))) (BoxSize s)) p)
                             (vmap float_of_int (local_i_start (part s)))) x))"


text \<open>\<open>clear\<close>: the body of the method is its docstring alone; no statement follows it.\<close>

definition clear :: "'b mesh \<Rightarrow> 'b mesh" where
  "clear s = s"

text \<open>\<open>paint\<close>: cic.paint accumulates into \<open>self.real\<close>, with \<open>self.transform\<close> as callback.\<close>

definition paint :: "'b engine \<Rightarrow> real vec3 list \<Rightarrow> mass \<Rightarrow> 'b mesh \<Rightarrow> error + 'b mesh" where
  "paint E pos m s =
     (case cic_paint E pos (view_input E (buffer s)) m (Nmesh s) (transform s) of
        Inl e \<Rightarrow> Inl e
      | Inr r \<Rightarrow> Inr (s\<lparr>buffer := assign_input E r (buffer s)\<rparr>))"

text \<open>
  \<open>r2c\<close>: with positions, clear and paint first; then \<open>self.real *= (1.0 / BoxSize) ** 3\<close>;
  then the forward plan.
\<close>

definition r2c :: "'b engine \<Rightarrow> real vec3 list option \<Rightarrow> mass \<Rightarrow> 'b mesh \<Rightarrow> error + 'b mesh" where
  "r2c E pos m s =
     (case (case pos of None \<Rightarrow> Inr s | Some p \<Rightarrow> paint E p m (clear s)) of
        Inl e \<Rightarrow> Inl e
      | Inr s1 \<Rightarrow>
          if BoxSize s1 = 0 then Inl ZeroDivisionError
          else
            (let s2 = s1\<lparr>buffer := assign_input E
                         (map (\<lambda>v. v * (1.0 / BoxSize s1) ^ 3) (view_input E (buffer s1)))
                         (buffer s1)\<rparr>
             in Inr (s2\<lparr>buffer := forward_execute E (buffer s2)\<rparr>)))"

text \<open>\<open>push\<close>: \<open>self.stack.append(self.complex.copy())\<close>.\<close>

definition push :: "'b engine \<Rightarrow> 'b mesh \<Rightarrow> 'b mesh" where
  "push E s = s\<lparr>stack := stack s @ [view_output E (buffer s)]\<rparr>"

text \<open>
  \<open>pop\<close>: \<open>self.complex[:] = self.stack.pop()\<close>; \<open>list.pop\<close> raises IndexError on the
  empty list, before anything is assigned.
\<close>

definition pop :: "'b engine \<Rightarrow> 'b mesh \<Rightarrow> error + 'b mesh" where
  "pop E s =
     (if stack s = [] then Inl IndexError
      else Inr (s\<lparr>buffer := assign_output E (last (stack s)) (buffer s),
                  stack := butlast (stack s)\<rparr>))"

text \<open>
  The body of the loop of \<open>transfer\<close> for axis \<open>d\<close>: the shape is all ones but for
  \<open>local_no[d]\<close> at \<open>d\<close>; \<open>wi = arange(local_no[d]) + local_o_start[d]\<close>;
  \<open>wi[wi >= Nmesh // 2] -= Nmesh\<close>; \<open>wi *= 2 * pi / Nmesh\<close>, which raises when Nmesh is 0.
\<close>

definition wi :: "'b mesh \<Rightarrow> nat \<Rightarrow> error + ndarray" where
  "wi s d =
     (let n = vnth (local_no (part s)) d;
          a0 = map (\<lambda>i. real i + real_of_int (vnth (local_o_start (part s)) d)) [0..<n];
          a1 = map (\<lambda>v. if v \<ge> real_of_int (Nmesh s div 2) then v - real_of_int (Nmesh s) else v) a0
      in if Nmesh s = 0 then Inl ZeroDivisionError
         else Inr \<lparr>shape = (replicate Ndim 1)[d := n],
                   data = map (\<lambda>v. v * (2 * pi / real_of_int (Nmesh s))) a1\<rparr>)"

fun build_w :: "'b mesh \<Rightarrow> nat list \<Rightarrow> error + ndarray list" where
  "build_w s [] = Inr []"
| "build_w s (d # ds) =
     (case wi s d of
        Inl e \<Rightarrow> Inl e
      | Inr a \<Rightarrow> (case build_w s ds of Inl e \<Rightarrow> Inl e | Inr w \<Rightarrow> Inr (a # w)))"

text \<open>\<open>transfer\<close>: build \<open>w\<close> over \<open>range(Ndim)\<close>, then apply the chain in order, in place.\<close>

definition apply_transfer :: "'b engine \<Rightarrow> ndarray list \<Rightarrow> transfer_function \<Rightarrow> 'b mesh \<Rightarrow> 'b mesh" where
  "apply_transfer E w f s =
     s\<lparr>buffer := assign_output E (f w (view_output E (buffer s))) (buffer s)\<rparr>"

definition transfer :: "'b engine \<Rightarrow> transfer_function list \<Rightarrow> 'b mesh \<Rightarrow> error + 'b mesh" where
  "transfer E transfer_functions s =
     (case build_w s [0..<Ndim] of
        Inl e \<Rightarrow> Inl e
      | Inr w \<Rightarrow> Inr (fold (apply_transfer E w) transfer_functions s))"

text \<open>
  \<open>readout\<close>: with positions, the values cic.readout reads from \<open>self.real\<close>; with None,
  the method falls off its end and returns None. The state is returned beside the result.
\<close>

definition readout :: "'b engine \<Rightarrow> real vec3 list option \<Rightarrow> 'b mesh \<Rightarrow> error + (real list option \<times> 'b mesh)" where
  "readout E pos s =
     (case pos of
        None \<Rightarrow> Inr (None, s)
      | Some p \<Rightarrow>
          (case cic_readout E (view_input E (buffer s)) p (Nmesh s) (transform s) of
             Inl e \<Rightarrow> Inl e
           | Inr rt \<Rightarrow> Inr (Some rt, s)))"

text \<open>\<open>c2r\<close>: push, transfer, the backward plan, pop.\<close>

definition c2r :: "'b engine \<Rightarrow> transfer_function list \<Rightarrow> 'b mesh \<Rightarrow> error + 'b mesh" where
  "c2r E transfer_functions s =
     (case transfer E transfer_functions (push E s) of
        Inl e \<Rightarrow> Inl e
      | Inr s2 \<Rightarrow> pop E (s2\<lparr>buffer := backward_execute E (buffer s2)\<rparr>))"

subsection \<open>What is assumed of the collaborators\<close>

text \<open>
  A numpy view read back after an assignment of a same-shaped array holds the assigned
  array; the backward plan and a transfer function, which work in place, leave the shape
  of the complex view as it is. These are the only facts about pfft and numpy the proofs
  use, and each theorem names the ones it needs.
\<close>

definition input_view_ok :: "'b engine \<Rightarrow> bool" where
  "input_view_ok E =
     (\<forall>b r. length r = length (view_input E b) \<longrightarrow> view_input E (assign_input E r b) = r)"

definition output_view_ok :: "'b engine \<Rightarrow> bool" where
  "output_view_ok E =
     (\<forall>b c. length c = length (view_output E b) \<longrightarrow> view_output E (assign_output E c b) = c)"

definition backward_keeps_shape :: "'b engine \<Rightarrow> bool" where
  "backward_keeps_shape E =
     (\<forall>b. length (view_output E (backward_execute E b)) = length (view_output E b))"

definition keeps_shape :: "transfer_function \<Rightarrow> bool" where
  "keeps_shape f = (\<forall>w c. length (f w c) = length c)"

subsection \<open>Two small engines and meshes for concrete runs\<close>

text \<open>
  \<open>shared_engine\<close>: one allocation of real cells; the real view is all of it and the
  complex view reads the same cells in pairs, so every write through one view shows in the
  other. \<open>split_engine\<close>: the two views are separate halves of the allocation; its plans
  are one-point transforms of each cell. Both paint by adding the number of particles to
  every cell.
\<close>

fun interleaved :: "real list \<Rightarrow> complex list" where
  "interleaved (x # y # r) = Complex x y # interleaved r"
| "interleaved r = []"

definition cells_of :: "complex list \<Rightarrow> real list" where
  "cells_of c = concat (map (\<lambda>z. [Re z, Im z]) c)"

definition test_partition :: "int \<Rightarrow> partition" where
  "test_partition n =
     \<lparr>local_i_start = Vec3 0 0 0,
      local_no = Vec3 (nat n) (nat n) (nat (n div 2 + 1)),
      local_o_start = Vec3 0 0 0\<rparr>"

definition shared_engine :: "real list engine" where
  "shared_engine =
     \<lparr>new_partition = (\<lambda>dt n. test_partition n),
      local_buffer = (\<lambda>p. [7, 7, 7, 7]),
      view_input = (\<lambda>b. b),
      assign_input = (\<lambda>r b. r),
      view_output = interleaved,
      assign_output = (\<lambda>c b. cells_of c),
      forward_execute = rev,
      backward_execute = rev,
      cic_paint = (\<lambda>pos field m period tr. Inr (map (\<lambda>v. v + real (length pos)) field)),
      cic_readout = (\<lambda>field pos period tr. Inr (map (\<lambda>p. 0) pos))\<rparr>"

definition split_engine :: "(real list \<times> complex list) engine" where
  "split_engine =
     \<lparr>new_partition = (\<lambda>dt n. test_partition n),
      local_buffer = (\<lambda>p. ([7, 7], [Complex 7 7, Complex 7 7])),
      view_input = fst,
      assign_input = (\<lambda>r b. (r, snd b)),
      view_output = snd,
      assign_output = (\<lambda>c b. (fst b, c)),
      forward_execute = (\<lambda>b. (fst b, map (\<lambda>v. Complex v 0) (fst b))),
      backward_execute = (\<lambda>b. (map Re (snd b), snd b)),
      cic_paint = (\<lambda>pos field m period tr. Inr (map (\<lambda>v. v + real (length pos)) field)),
      cic_readout = (\<lambda>field pos period tr. Inr (map (\<lambda>p. 0) pos))\<rparr>"

definition doubling :: transfer_function where
  "doubling w c = map (\<lambda>z. 2 * z) c"

definition shared_mesh :: "real list mesh" where
  "shared_mesh =
     \<lparr>Nmesh = 8, BoxSize = 2, part = test_partition 8, buffer = [1, 2, 3, 4],
      stack = [], verbose = False\<rparr>"

definition split_mesh :: "(real list \<times> complex list) mesh" where
  "split_mesh =
     \<lparr>Nmesh = 8, BoxSize = 2, part = (test_partition 8)\<lparr>local_i_start := Vec3 4 0 0\<rparr>,
      buffer = ([8, 16], [Complex 1 2, Complex 3 4]), stack = [], verbose = False\<rparr>"



section \<open>Properties\<close>

subsection \<open>The two engines meet the assumptions\<close>

lemma interleaved_cells_of: "interleaved (cells_of c) = c"
  by (induction c) (simp_all add: cells_of_def)

lemma length_interleaved: "length (interleaved b) = length b div 2"
  by (induction b rule: interleaved.induct) simp_all

lemma shared_engine_output_view_ok: "output_view_ok shared_engine"
  by (simp add: output_view_ok_def shared_engine_def interleaved_cells_of)

lemma shared_engine_input_view_ok: "input_view_ok shared_engine"
  by (simp add: input_view_ok_def shared_engine_def)

lemma shared_engine_backward_keeps_shape: "backward_keeps_shape shared_engine"
  by (simp add: backward_keeps_shape_def shared_engine_def length_interleaved)

lemma split_engine_output_view_ok: "output_view_ok split_engine"
  by (simp add: output_view_ok_def split_engine_def)

lemma split_engine_input_view_ok: "input_view_ok split_engine"
  by (simp add: input_view_ok_def split_engine_def)

lemma split_engine_backward_keeps_shape: "backward_keeps_shape split_engine"
  by (simp add: backward_keeps_shape_def split_engine_def)

lemma keeps_shape_doubling: "keeps_shape doubling"
  by (simp add: keeps_shape_def doubling_def)

subsection \<open>Helper facts\<close>

lemma clear_noop: "clear s = s"
  by (simp add: clear_def)













lemma range_Ndim: "[0..<Ndim] = [0, 1, 2]"
  by (simp add: Ndim_def upt_rec)

lemma wi_Inr: "Nmesh s \<noteq> 0 \<Longrightarrow> \<exists>a. wi s d = Inr a"
  by (simp add: wi_def Let_def)

lemma build_w_Ndim:
  assumes "Nmesh s \<noteq> 0"
  shows "\<exists>a0 a1 a2. wi s 0 = Inr a0 \<and> wi s 1 = Inr a1 \<and> wi s 2 = Inr a2
        \<and> build_w s [0..<Ndim] = Inr [a0, a1, a2]"
proof -
  obtain a0 a1 a2 where "wi s 0 = Inr a0" "wi s 1 = Inr a1" "wi s 2 = Inr a2"
    using wi_Inr [OF assms] by blast
  then show ?thesis by (simp add: range_Ndim)
qed

lemma fold_apply_transfer_stack: "stack (fold (apply_transfer E w) fs s) = stack s"
  by (induction fs arbitrary: s) (simp_all add: apply_transfer_def)

lemma fold_apply_transfer_shape:
  assumes "output_view_ok E" and "\<forall>f \<in> set fs. keeps_shape f"
  shows "length (view_output E (buffer (fold (apply_transfer E w) fs s)))
           = length (view_output E (buffer s))"
  using assms
proof (induction fs arbitrary: s)
  case Nil
  then show ?case by simp
next
  case (Cons f fs)
  have "length (view_output E (buffer (apply_transfer E w f s)))
          = length (view_output E (buffer s))"
    using Cons.prems by (simp add: apply_transfer_def output_view_ok_def keeps_shape_def)
  then show ?case
    using Cons.IH [of "apply_transfer E w f s"] Cons.prems by simp
qed

lemma transfer_cases:
  "(Nmesh s \<noteq> 0 \<and> (\<exists>s2. transfer E fs s = Inr s2 \<and> stack s2 = stack s))
   \<or> (Nmesh s = 0 \<and> transfer E fs s = Inl ZeroDivisionError)"
proof (cases "Nmesh s = 0")
  case True
  then have "wi s 0 = Inl ZeroDivisionError"
    by (simp add: wi_def Let_def)
  then have "build_w s [0..<Ndim] = Inl ZeroDivisionError"
    by (simp add: range_Ndim)
  then show ?thesis using True by (simp add: transfer_def)
next
  case False
  then obtain w where "build_w s [0..<Ndim] = Inr w"
    using build_w_Ndim [of s] by blast
  then show ?thesis using False by (simp add: transfer_def fold_apply_transfer_stack)
qed

lemma wi_entries:
  assumes "Nmesh s \<noteq> 0"
  shows "\<exists>a. wi s d = Inr a
           \<and> shape a = (replicate Ndim 1)[d := vnth (local_no (part s)) d]
           \<and> length (data a) = vnth (local_no (part s)) d
           \<and> (\<forall>i < vnth (local_no (part s)) d. data a ! i =
                (let g = int i + vnth (local_o_start (part s)) d in
                 if g < Nmesh s div 2 then real_of_int g * (2 * pi / real_of_int (Nmesh s))
                 else real_of_int (g - Nmesh s) * (2 * pi / real_of_int (Nmesh s))))"
proof -
  have cmp: "(real_of_int (Nmesh s div 2) \<le> real i + real_of_int o')
               = (\<not> int i + o' < Nmesh s div 2)"
    for i :: nat and o' :: int
  proof -
    have "real i + real_of_int o' = real_of_int (int i + o')" by simp
    then show ?thesis by (simp only: of_int_le_iff not_less)
  qed
  show ?thesis
    using assms by (simp add: wi_def Let_def cmp)
qed

lemma fold_condition_even:
  assumes "even n"
  shows "(g < n div 2) = (real_of_int g < real_of_int n / 2)"
proof -
  from assms obtain k where k: "n = 2 * k" by (auto elim: evenE)
  show ?thesis by (simp add: k)
qed

lemma r2c_None:
  assumes "input_view_ok E" and "BoxSize s \<noteq> 0"
  shows "\<exists>b. r2c E None m s = Inr (s\<lparr>buffer := forward_execute E b\<rparr>)
           \<and> view_input E b = map (\<lambda>v. v * (1 / BoxSize s) ^ 3) (view_input E (buffer s))"
proof -
  let ?b = "assign_input E (map (\<lambda>v. v * (1 / BoxSize s) ^ 3) (view_input E (buffer s)))
              (buffer s)"
  have "r2c E None m s = Inr (s\<lparr>buffer := forward_execute E ?b\<rparr>)"
    using assms(2) by (simp add: r2c_def Let_def)
  moreover have "view_input E ?b
      = map (\<lambda>v. v * (1 / BoxSize s) ^ 3) (view_input E (buffer s))"
    using assms(1) by (simp add: input_view_ok_def)
  ultimately show ?thesis by blast
qed

lemma paint_BoxSize: "paint E p m s = Inr sp \<Longrightarrow> BoxSize sp = BoxSize s"
  by (auto simp: paint_def split: sum.splits)

subsection \<open>The claims\<close>

text \<open>
  C1. The claim: clear() sets every element of the real view to zero, and clear(); clear()
  gives the same all-zero view as one clear(). The method's docstring says the same
  (``This function simply set real[:] = 0''), but the method has no statement after the
  docstring: on a mesh whose real view holds 1, 2, 3, 4 it returns with the view as it
  was. The repetition clause holds only because clear() changes nothing.
\<close>

theorem clear_leaves_real_view:
  "clear shared_mesh = shared_mesh
   \<and> view_input shared_engine (buffer (clear shared_mesh)) = [1, 2, 3, 4]
   \<and> view_input shared_engine (buffer (clear (clear shared_mesh))) = [1, 2, 3, 4]"
  by (simp add: clear_def shared_mesh_def shared_engine_def)

text \<open>
  C2. For every mesh state (Nmesh not 0, so that the k-vectors can be built) and every
  chain of transfer functions, the empty chain included, c2r(chain) returns normally; it
  is push, the chain, the backward plan, pop: the state it returns is the state after the
  chain with the backward plan run on the buffer, the snapshot of the pre-call complex
  view assigned back, and the stack as before the call. So the complex view after the
  call equals the complex view before it, and the stack has its pre-call depth.
\<close>

theorem c2r_restores_complex_view:
  assumes "output_view_ok E" and "backward_keeps_shape E"
    and "Nmesh s \<noteq> 0" and "\<forall>f \<in> set fs. keeps_shape f"
  shows "\<exists>s2 s'. transfer E fs (push E s) = Inr s2
           \<and> c2r E fs s = Inr s'
           \<and> s' = s2\<lparr>buffer := assign_output E (view_output E (buffer s))
                                   (backward_execute E (buffer s2)),
                      stack := stack s\<rparr>
           \<and> view_output E (buffer s') = view_output E (buffer s)
           \<and> stack s' = stack s
           \<and> length (stack s') = length (stack s)"
proof -
  obtain w where w: "build_w (push E s) [0..<Ndim] = Inr w"
    using build_w_Ndim [of "push E s"] assms(3) by (auto simp: push_def)
  define s2 where "s2 = fold (apply_transfer E w) fs (push E s)"
  have t: "transfer E fs (push E s) = Inr s2"
    by (simp add: transfer_def w s2_def)
  have len: "length (view_output E (buffer s2)) = length (view_output E (buffer s))"
    using fold_apply_transfer_shape [OF assms(1) assms(4), of w "push E s"]
    by (simp add: s2_def push_def)
  have st: "stack s2 = stack s @ [view_output E (buffer s)]"
    by (simp add: s2_def fold_apply_transfer_stack push_def)
  have bl: "length (view_output E (backward_execute E (buffer s2)))
              = length (view_output E (buffer s))"
    using assms(2) len by (simp add: backward_keeps_shape_def)
  show ?thesis
    using t st bl assms(1) by (simp add: c2r_def pop_def output_view_ok_def)
qed

text \<open>
  A run on the split engine: the chain doubles the field; the real view receives the
  backward transform of the doubled field, the complex view is the one before the call.
  With the empty chain the real view receives the backward transform of the field as it is.
\<close>

theorem c2r_restores_complex_view_witness:
  "output_view_ok split_engine \<and> backward_keeps_shape split_engine
   \<and> Nmesh split_mesh \<noteq> 0 \<and> keeps_shape doubling
   \<and> c2r split_engine [doubling] split_mesh
       = Inr (split_mesh\<lparr>buffer := ([2, 6], [Complex 1 2, Complex 3 4])\<rparr>)
   \<and> c2r split_engine [] split_mesh
       = Inr (split_mesh\<lparr>buffer := ([1, 3], [Complex 1 2, Complex 3 4])\<rparr>)"
proof -
  have "Nmesh split_mesh \<noteq> 0
   \<and> c2r split_engine [doubling] split_mesh
       = Inr (split_mesh\<lparr>buffer := ([2, 6], [Complex 1 2, Complex 3 4])\<rparr>)
   \<and> c2r split_engine [] split_mesh
       = Inr (split_mesh\<lparr>buffer := ([1, 3], [Complex 1 2, Complex 3 4])\<rparr>)"
    using c2r_restores_complex_view [OF split_engine_output_view_ok
        split_engine_backward_keeps_shape, of split_mesh "[doubling]"]
      c2r_restores_complex_view [OF split_engine_output_view_ok
        split_engine_backward_keeps_shape, of split_mesh "[]"]
    by (simp add: c2r_def transfer_def range_Ndim wi_def Let_def push_def pop_def
        apply_transfer_def doubling_def split_mesh_def split_engine_def)
  then show ?thesis
    using split_engine_output_view_ok split_engine_backward_keeps_shape keeps_shape_doubling
    by simp
qed

text \<open>
  C3, as the code has it. For Nmesh not 0, transfer builds three arrays, one per axis
  \<open>d\<close>: the shape is 1 on the other axes and \<open>local_no[d]\<close> on axis \<open>d\<close>, the length is
  \<open>local_no[d]\<close>, and the entry at local index \<open>i\<close>, with \<open>g = i + local_o_start[d]\<close>, is
  \<open>g * 2 pi / Nmesh\<close> when \<open>g < Nmesh div 2\<close> and \<open>(g - Nmesh) * 2 pi / Nmesh\<close> otherwise;
  the chain is applied with these arrays. The bound is the integer quotient
  \<open>Nmesh // 2\<close> of the source; for an even Nmesh it is the exact half of the claim.
\<close>

theorem transfer_wavenumbers:
  assumes "Nmesh s \<noteq> 0"
  shows "\<exists>w. build_w s [0..<Ndim] = Inr w
           \<and> transfer E fs s = Inr (fold (apply_transfer E w) fs s)
           \<and> length w = 3
           \<and> (\<forall>d < 3.
                shape (w ! d) = [1, 1, 1][d := vnth (local_no (part s)) d]
              \<and> length (data (w ! d)) = vnth (local_no (part s)) d
              \<and> (\<forall>i < vnth (local_no (part s)) d. data (w ! d) ! i =
                   (let g = int i + vnth (local_o_start (part s)) d in
                    if g < Nmesh s div 2 then real_of_int g * (2 * pi / real_of_int (Nmesh s))
                    else real_of_int (g - Nmesh s) * (2 * pi / real_of_int (Nmesh s)))))
           \<and> (even (Nmesh s) \<longrightarrow>
                (\<forall>g. (g < Nmesh s div 2) = (real_of_int g < real_of_int (Nmesh s) / 2)))"
proof -
  let ?P = "\<lambda>d a. shape a = [1, 1, 1][d := vnth (local_no (part s)) d]
           \<and> length (data a) = vnth (local_no (part s)) d
           \<and> (\<forall>i < vnth (local_no (part s)) d. data a ! i =
                (let g = int i + vnth (local_o_start (part s)) d in
                 if g < Nmesh s div 2 then real_of_int g * (2 * pi / real_of_int (Nmesh s))
                 else real_of_int (g - Nmesh s) * (2 * pi / real_of_int (Nmesh s))))"
  have ones: "replicate Ndim (1::nat) = [1, 1, 1]"
    by (simp add: Ndim_def numeral_3_eq_3)
  obtain a0 where a0: "wi s 0 = Inr a0" "?P 0 a0"
    using wi_entries [OF assms, of 0] unfolding ones by blast
  obtain a1 where a1: "wi s 1 = Inr a1" "?P 1 a1"
    using wi_entries [OF assms, of 1] unfolding ones by blast
  obtain a2 where a2: "wi s 2 = Inr a2" "?P 2 a2"
    using wi_entries [OF assms, of 2] unfolding ones by blast
  have w: "build_w s [0..<Ndim] = Inr [a0, a1, a2]"
    using a0(1) a1(1) a2(1) by (simp add: range_Ndim)
  have all: "?P d ([a0, a1, a2] ! d)" if "d < 3" for d
  proof -
    from that consider "d = 0" | "d = 1" | "d = 2" by linarith
    then show ?thesis
    proof cases
      case 1
      then show ?thesis using a0(2) by simp
    next
      case 2
      then show ?thesis using a1(2) by simp
    next
      case 3
      then show ?thesis using a2(2) by simp
    qed
  qed
  have t: "transfer E fs s = Inr (fold (apply_transfer E [a0, a1, a2]) fs s)"
    by (simp add: transfer_def w)
  have ev: "even (Nmesh s) \<longrightarrow>
      (\<forall>g. (g < Nmesh s div 2) = (real_of_int g < real_of_int (Nmesh s) / 2))"
    using fold_condition_even by blast
  from w t all ev show ?thesis
    by (intro exI [of _ "[a0, a1, a2]"]) simp
qed

text \<open>The example of the claim: Nmesh = 8, offset 0; index 5 folds to -3, index 3 stays.\<close>

theorem transfer_wavenumbers_witness:
  "Nmesh shared_mesh \<noteq> 0 \<and> even (Nmesh shared_mesh)
   \<and> (\<exists>w. build_w shared_mesh [0..<Ndim] = Inr w
          \<and> map shape w = [[8, 1, 1], [1, 8, 1], [1, 1, 5]]
          \<and> map (\<lambda>a. length (data a)) w = [8, 8, 5]
          \<and> data (w ! 0) ! 5 = - 3 * (2 * pi / 8)
          \<and> data (w ! 0) ! 3 = 3 * (2 * pi / 8)
          \<and> data (w ! 0) ! 4 = - 4 * (2 * pi / 8))"
proof -
  have n: "Nmesh shared_mesh \<noteq> 0" by (simp add: shared_mesh_def)
  obtain w where w: "build_w shared_mesh [0..<Ndim] = Inr w" "length w = 3"
    and all: "\<forall>d < 3.
                shape (w ! d) = [1, 1, 1][d := vnth (local_no (part shared_mesh)) d]
              \<and> length (data (w ! d)) = vnth (local_no (part shared_mesh)) d
              \<and> (\<forall>i < vnth (local_no (part shared_mesh)) d. data (w ! d) ! i =
                   (let g = int i + vnth (local_o_start (part shared_mesh)) d in
                    if g < Nmesh shared_mesh div 2
                    then real_of_int g * (2 * pi / real_of_int (Nmesh shared_mesh))
                    else real_of_int (g - Nmesh shared_mesh)
                           * (2 * pi / real_of_int (Nmesh shared_mesh))))"
    using transfer_wavenumbers [OF n, of shared_engine "[]"] by blast
  obtain a0 a1 a2 where w3: "w = [a0, a1, a2]"
    using w(2) by (auto simp: length_Suc_conv numeral_3_eq_3)
  have d0: "shape a0 = [8, 1, 1] \<and> length (data a0) = 8
      \<and> data a0 ! 5 = - 3 * (2 * pi / 8) \<and> data a0 ! 3 = 3 * (2 * pi / 8)
      \<and> data a0 ! 4 = - 4 * (2 * pi / 8)"
    using all [rule_format, of 0] by (simp add: w3 shared_mesh_def test_partition_def)
  have d1: "shape a1 = [1, 8, 1] \<and> length (data a1) = 8"
    using all [rule_format, of 1] by (simp add: w3 shared_mesh_def test_partition_def)
  have d2: "shape a2 = [1, 1, 5] \<and> length (data a2) = 5"
    using all [rule_format, of 2] by (simp add: w3 shared_mesh_def test_partition_def)
  have e: "even (Nmesh shared_mesh)" by (simp add: shared_mesh_def)
  show ?thesis using n e w(1) d0 d1 d2 by (simp add: w3)
qed

text \<open>
  C3, as the claim is written, with the exact half \<open>Nmesh / 2\<close>: for Nmesh = 7, offset 0
  and index 3 the claim gives \<open>3 * 2 pi / 7\<close>, since 3 is below 7 / 2; the code compares
  with \<open>7 // 2 = 3\<close>, folds the index and gives \<open>-4 * 2 pi / 7\<close>.
\<close>

lemma wi_odd_Nmesh:
  "wi (shared_mesh\<lparr>Nmesh := 7, part := test_partition 7\<rparr>) 0
     = Inr \<lparr>shape = [7, 1, 1],
            data = [0, 1 * (2 * pi / 7), 2 * (2 * pi / 7), - 4 * (2 * pi / 7),
                    - 3 * (2 * pi / 7), - 2 * (2 * pi / 7), - 1 * (2 * pi / 7)]\<rparr>"
  by (simp add: wi_def Let_def shared_mesh_def test_partition_def Ndim_def upt_rec
      numeral_3_eq_3)

theorem transfer_wavenumbers_odd_Nmesh:
  "real_of_int (3 + 0) < real_of_int 7 / 2
   \<and> (\<exists>w. build_w (shared_mesh\<lparr>Nmesh := 7, part := test_partition 7\<rparr>) [0..<Ndim] = Inr w
          \<and> data (w ! 0) ! 3 = - 4 * (2 * pi / 7)
          \<and> data (w ! 0) ! 3 \<noteq> 3 * (2 * pi / 7))"
proof -
  obtain a1 a2 where
    "build_w (shared_mesh\<lparr>Nmesh := 7, part := test_partition 7\<rparr>) [0..<Ndim]
       = Inr [\<lparr>shape = [7, 1, 1],
            data = [0, 1 * (2 * pi / 7), 2 * (2 * pi / 7), - 4 * (2 * pi / 7),
                    - 3 * (2 * pi / 7), - 2 * (2 * pi / 7), - 1 * (2 * pi / 7)]\<rparr>, a1, a2]"
    using build_w_Ndim [of "shared_mesh\<lparr>Nmesh := 7, part := test_partition 7\<rparr>"]
      wi_odd_Nmesh
    by (auto simp: shared_mesh_def)
  then show ?thesis by simp
qed

text \<open>
  C4. The claim: c2r before any r2c raises a usage error. The mesh keeps no record of
  whether r2c has run, and c2r tests nothing before it pushes: on the mesh as the
  constructor leaves it, c2r with the empty chain returns normally.
\<close>

theorem c2r_on_fresh_mesh_returns:
  "init shared_engine 2 8 False F8 = Inr (shared_mesh\<lparr>buffer := [0, 0, 0, 0]\<rparr>)
   \<and> c2r shared_engine [] (shared_mesh\<lparr>buffer := [0, 0, 0, 0]\<rparr>)
       = Inr (shared_mesh\<lparr>buffer := [0, 0, 0, 0]\<rparr>)"
  by (simp add: init_def c2r_def transfer_def range_Ndim wi_def Let_def push_def pop_def
      shared_mesh_def shared_engine_def cells_of_def zero_complex.code)

text \<open>
  C4, as the code has it. In every state with Nmesh not 0, whatever ran before, c2r
  returns normally: its own pop always finds the snapshot its push made. The only
  exception c2r raises by itself is the ZeroDivisionError of the k-vector scaling when
  Nmesh is 0. In particular c2r returns normally on a freshly constructed mesh.
\<close>

theorem c2r_raises_no_usage_error:
  "(Nmesh s \<noteq> 0 \<longrightarrow> (\<exists>s'. c2r E fs s = Inr s'))
   \<and> (\<forall>e. c2r E fs s = Inl e \<longrightarrow> e = ZeroDivisionError \<and> Nmesh s = 0)
   \<and> (\<forall>s0. init E boxsize nmesh verb dt = Inr s0 \<and> nmesh \<noteq> 0 \<longrightarrow>
          (\<exists>s'. c2r E fs s0 = Inr s'))"
proof -
  have ret: "\<exists>s'. c2r E fs t = Inr s'" if "Nmesh t \<noteq> 0" for t :: "'a mesh"
  proof -
    have "Nmesh (push E t) \<noteq> 0" using that by (simp add: push_def)
    then obtain s2 where "transfer E fs (push E t) = Inr s2" "stack s2 = stack (push E t)"
      using transfer_cases [of "push E t" E fs] by auto
    then show ?thesis by (simp add: c2r_def pop_def push_def)
  qed
  have err: "e = ZeroDivisionError \<and> Nmesh s = 0" if "c2r E fs s = Inl e" for e
  proof (cases "Nmesh s = 0")
    case True
    then have "Nmesh (push E s) = 0" by (simp add: push_def)
    then have "transfer E fs (push E s) = Inl ZeroDivisionError"
      using transfer_cases [of "push E s" E fs] by auto
    then show ?thesis using that True by (simp add: c2r_def)
  next
    case False
    then show ?thesis using ret [of s] that by auto
  qed
  have fresh: "\<exists>s'. c2r E fs s0 = Inr s'"
    if "init E boxsize nmesh verb dt = Inr s0 \<and> nmesh \<noteq> 0" for s0
  proof -
    have "Nmesh s0 = nmesh"
      using that by (auto simp: init_def Let_def split: if_splits)
    then show ?thesis using ret [of s0] that by simp
  qed
  show ?thesis using ret [of s] err fresh by blast
qed

text \<open>
  Runs on the split engine: the mesh of the examples, the mesh as constructed, and a
  mesh with Nmesh = 0, where the k-vector scaling raises.
\<close>

theorem c2r_raises_no_usage_error_witness:
  "Nmesh split_mesh \<noteq> 0
   \<and> (\<exists>s'. c2r split_engine [doubling] split_mesh = Inr s')
   \<and> init split_engine 2 8 False F8
       = Inr (split_mesh\<lparr>part := test_partition 8,
                         buffer := ([0, 0], [Complex 7 7, Complex 7 7])\<rparr>)
   \<and> (\<exists>s'. c2r split_engine [doubling]
              (split_mesh\<lparr>part := test_partition 8,
                          buffer := ([0, 0], [Complex 7 7, Complex 7 7])\<rparr>) = Inr s')
   \<and> Nmesh (split_mesh\<lparr>Nmesh := 0\<rparr>) = 0
   \<and> c2r split_engine [doubling] (split_mesh\<lparr>Nmesh := 0\<rparr>) = Inl ZeroDivisionError"
proof -
  have a: "Nmesh split_mesh \<noteq> 0
   \<and> (\<exists>s'. c2r split_engine [doubling] split_mesh = Inr s')
   \<and> init split_engine 2 8 False F8
       = Inr (split_mesh\<lparr>part := test_partition 8,
                         buffer := ([0, 0], [Complex 7 7, Complex 7 7])\<rparr>)
   \<and> (\<exists>s'. c2r split_engine [doubling]
              (split_mesh\<lparr>part := test_partition 8,
                          buffer := ([0, 0], [Complex 7 7, Complex 7 7])\<rparr>) = Inr s')"
    using c2r_raises_no_usage_error [of split_mesh split_engine "[doubling]" 2 8 False F8]
    by (simp add: init_def Let_def split_mesh_def split_engine_def)
  have z: "Nmesh (split_mesh\<lparr>Nmesh := 0\<rparr>) = 0" by simp
  have "\<exists>e. c2r split_engine [doubling] (split_mesh\<lparr>Nmesh := 0\<rparr>) = Inl e"
    by (simp add: c2r_def transfer_def range_Ndim wi_def Let_def push_def)
  then have b: "c2r split_engine [doubling] (split_mesh\<lparr>Nmesh := 0\<rparr>) = Inl ZeroDivisionError"
    using c2r_raises_no_usage_error
      [of "split_mesh\<lparr>Nmesh := 0\<rparr>" split_engine "[doubling]" 2 8 False F8]
    by blast
  from a z b show ?thesis by simp
qed

text \<open>
  C5. With BoxSize not 0, r2c() multiplies every element of the real view by
  \<open>(1 / BoxSize) ^ 3\<close> and runs the forward plan on the buffer so scaled; with positions
  it does the same to the painted view. A second r2c() scales the real view again, as
  the first call left it: nothing records that the scaling was done. Where the forward
  plan leaves the real view as it is, the data that enter the second transform are the
  original data multiplied by \<open>(1 / BoxSize) ^ 3\<close> twice.
\<close>

theorem r2c_rescales_before_forward:
  assumes "input_view_ok E" and "BoxSize s \<noteq> 0"
  shows "\<exists>b1 b2 s1.
           r2c E None m s = Inr s1
         \<and> s1 = s\<lparr>buffer := forward_execute E b1\<rparr>
         \<and> view_input E b1 = map (\<lambda>v. v * (1 / BoxSize s) ^ 3) (view_input E (buffer s))
         \<and> r2c E None m s1 = Inr (s1\<lparr>buffer := forward_execute E b2\<rparr>)
         \<and> view_input E b2 = map (\<lambda>v. v * (1 / BoxSize s) ^ 3) (view_input E (buffer s1))
         \<and> ((\<forall>b. view_input E (forward_execute E b) = view_input E b) \<longrightarrow>
              view_input E b2
                = map (\<lambda>v. v * (1 / BoxSize s) ^ 3 * (1 / BoxSize s) ^ 3)
                    (view_input E (buffer s)))
         \<and> (\<forall>p sp. paint E p m (clear s) = Inr sp \<longrightarrow>
              (\<exists>b. r2c E (Some p) m s = Inr (sp\<lparr>buffer := forward_execute E b\<rparr>)
                 \<and> view_input E b
                     = map (\<lambda>v. v * (1 / BoxSize s) ^ 3) (view_input E (buffer sp))))"
proof -
  obtain b1 where b1: "r2c E None m s = Inr (s\<lparr>buffer := forward_execute E b1\<rparr>)"
      "view_input E b1 = map (\<lambda>v. v * (1 / BoxSize s) ^ 3) (view_input E (buffer s))"
    using r2c_None [OF assms] by blast
  define s1 where "s1 = s\<lparr>buffer := forward_execute E b1\<rparr>"
  have B1: "BoxSize s1 = BoxSize s" by (simp add: s1_def)
  obtain b2 where b2: "r2c E None m s1 = Inr (s1\<lparr>buffer := forward_execute E b2\<rparr>)"
      "view_input E b2 = map (\<lambda>v. v * (1 / BoxSize s) ^ 3) (view_input E (buffer s1))"
    using r2c_None [OF assms(1), of s1 m] assms(2) B1 by auto
  have twice: "view_input E b2
      = map (\<lambda>v. v * (1 / BoxSize s) ^ 3 * (1 / BoxSize s) ^ 3) (view_input E (buffer s))"
    if "\<forall>b. view_input E (forward_execute E b) = view_input E b"
    using that b2(2) b1(2) by (simp add: s1_def comp_def)
  have painted: "\<exists>b. r2c E (Some p) m s = Inr (sp\<lparr>buffer := forward_execute E b\<rparr>)
        \<and> view_input E b = map (\<lambda>v. v * (1 / BoxSize s) ^ 3) (view_input E (buffer sp))"
    if "paint E p m (clear s) = Inr sp" for p sp
  proof -
    have B: "BoxSize sp = BoxSize s"
      using paint_BoxSize [OF that] by (simp add: clear_def)
    let ?b = "assign_input E
        (map (\<lambda>v. v * (1 / BoxSize s) ^ 3) (view_input E (buffer sp))) (buffer sp)"
    have "r2c E (Some p) m s = Inr (sp\<lparr>buffer := forward_execute E ?b\<rparr>)"
      using that assms(2) B by (simp add: r2c_def Let_def)
    moreover have "view_input E ?b
        = map (\<lambda>v. v * (1 / BoxSize s) ^ 3) (view_input E (buffer sp))"
      using assms(1) by (simp add: input_view_ok_def)
    ultimately show ?thesis by blast
  qed
  have r1: "r2c E None m s = Inr s1"
    using b1(1) by (simp add: s1_def)
  have s1: "s1 = s\<lparr>buffer := forward_execute E b1\<rparr>"
    by (simp add: s1_def)
  from r1 s1 b1(2) b2 twice painted show ?thesis
    by (intro exI [of _ b1] exI [of _ b2] exI [of _ s1]) blast
qed

text \<open>
  A run on the split engine with BoxSize 2: the view 8, 16 becomes 1, 2 in the first
  call and 1/8, 1/4 in the second.
\<close>

theorem r2c_rescales_before_forward_witness:
  "input_view_ok split_engine \<and> BoxSize split_mesh \<noteq> 0
   \<and> (\<forall>b. view_input split_engine (forward_execute split_engine b) = view_input split_engine b)
   \<and> r2c split_engine None (Scalar 1) split_mesh
       = Inr (split_mesh\<lparr>buffer := ([1, 2], [Complex 1 0, Complex 2 0])\<rparr>)
   \<and> r2c split_engine None (Scalar 1) (split_mesh\<lparr>buffer := ([1, 2], [Complex 1 0, Complex 2 0])\<rparr>)
       = Inr (split_mesh\<lparr>buffer := ([1 / 8, 1 / 4], [Complex (1 / 8) 0, Complex (1 / 4) 0])\<rparr>)
   \<and> paint split_engine [Vec3 1 1 1] (Scalar 1) (clear split_mesh)
       = Inr (split_mesh\<lparr>buffer := ([9, 17], [Complex 1 2, Complex 3 4])\<rparr>)
   \<and> r2c split_engine (Some [Vec3 1 1 1]) (Scalar 1) split_mesh
       = Inr (split_mesh\<lparr>buffer := ([9 / 8, 17 / 8], [Complex (9 / 8) 0, Complex (17 / 8) 0])\<rparr>)"
proof -
  have "BoxSize split_mesh \<noteq> 0
   \<and> (\<forall>b. view_input split_engine (forward_execute split_engine b) = view_input split_engine b)
   \<and> r2c split_engine None (Scalar 1) split_mesh
       = Inr (split_mesh\<lparr>buffer := ([1, 2], [Complex 1 0, Complex 2 0])\<rparr>)
   \<and> r2c split_engine None (Scalar 1) (split_mesh\<lparr>buffer := ([1, 2], [Complex 1 0, Complex 2 0])\<rparr>)
       = Inr (split_mesh\<lparr>buffer := ([1 / 8, 1 / 4], [Complex (1 / 8) 0, Complex (1 / 4) 0])\<rparr>)
   \<and> paint split_engine [Vec3 1 1 1] (Scalar 1) (clear split_mesh)
       = Inr (split_mesh\<lparr>buffer := ([9, 17], [Complex 1 2, Complex 3 4])\<rparr>)
   \<and> r2c split_engine (Some [Vec3 1 1 1]) (Scalar 1) split_mesh
       = Inr (split_mesh\<lparr>buffer := ([9 / 8, 17 / 8], [Complex (9 / 8) 0, Complex (17 / 8) 0])\<rparr>)"
    using r2c_rescales_before_forward [OF split_engine_input_view_ok, of split_mesh "Scalar 1"]
    by (simp add: r2c_def paint_def clear_def Let_def
        split_mesh_def split_engine_def power3_eq_cube)
  then show ?thesis using split_engine_input_view_ok by simp
qed

text \<open>
  C6. For every mesh state, push() followed at once by pop() returns normally, leaves
  the complex view equal to the one before the push, and leaves the stack as it was
  before the push, so at the same depth.
\<close>

theorem push_pop_restores:
  assumes "output_view_ok E"
  shows "\<exists>s'. pop E (push E s) = Inr s'
              \<and> view_output E (buffer s') = view_output E (buffer s)
              \<and> stack s' = stack s
              \<and> length (stack s') = length (stack s)"
  using assms by (simp add: pop_def push_def output_view_ok_def)

theorem push_pop_restores_witness:
  "output_view_ok shared_engine
   \<and> view_output shared_engine (buffer shared_mesh) = [Complex 1 2, Complex 3 4]
   \<and> pop shared_engine (push shared_engine shared_mesh) = Inr shared_mesh"
proof -
  have "view_output shared_engine (buffer shared_mesh) = [Complex 1 2, Complex 3 4]
      \<and> pop shared_engine (push shared_engine shared_mesh) = Inr shared_mesh"
    using push_pop_restores [OF shared_engine_output_view_ok, of shared_mesh]
    by (simp add: pop_def push_def shared_mesh_def shared_engine_def cells_of_def)
  then show ?thesis using shared_engine_output_view_ok by simp
qed




text \<open>
  C8. With dtype f8 or f4 the constructor returns a mesh whose real view has the shape
  of the allocated view and holds zero in every element, and whose snapshot stack is
  empty.
\<close>

theorem init_starts_cleared:
  assumes "input_view_ok E" and "dt = F8 \<or> dt = F4"
  shows "\<exists>s. init E boxsize nmesh verb dt = Inr s
             \<and> length (view_input E (buffer s))
                 = length (view_input E (local_buffer E (new_partition E dt nmesh)))
             \<and> (\<forall>v \<in> set (view_input E (buffer s)). v = 0)
             \<and> stack s = []"
  using assms by (auto simp: init_def Let_def input_view_ok_def)

theorem init_starts_cleared_witness:
  "input_view_ok shared_engine
   \<and> view_input shared_engine (local_buffer shared_engine (new_partition shared_engine F8 8))
       = [7, 7, 7, 7]
   \<and> (\<exists>s. init shared_engine 2 8 False F8 = Inr s
          \<and> view_input shared_engine (buffer s) = [0, 0, 0, 0]
          \<and> stack s = [])"
proof -
  have "view_input shared_engine (local_buffer shared_engine (new_partition shared_engine F8 8))
       = [7, 7, 7, 7]
      \<and> (\<exists>s. init shared_engine 2 8 False F8 = Inr s
          \<and> view_input shared_engine (buffer s) = [0, 0, 0, 0]
          \<and> stack s = [])"
    using init_starts_cleared [OF shared_engine_input_view_ok, of F8 2 8 False]
    by (simp add: init_def shared_engine_def Let_def)
  then show ?thesis using shared_engine_input_view_ok by simp
qed

text \<open>
  C9. pop() on an empty stack raises (IndexError, from \<open>list.pop\<close>) and returns no state;
  on a non-empty stack whose top snapshot has the shape of the complex view it returns
  normally, the complex view is the removed top entry and the stack is the rest.
\<close>

theorem pop_requires_nonempty:
  assumes "output_view_ok E"
  shows "(stack s = [] \<longrightarrow> pop E s = Inl IndexError)
       \<and> (stack s \<noteq> [] \<and> length (last (stack s)) = length (view_output E (buffer s)) \<longrightarrow>
            (\<exists>s'. pop E s = Inr s'
                 \<and> view_output E (buffer s') = last (stack s)
                 \<and> stack s' = butlast (stack s)))"
  using assms by (simp add: pop_def output_view_ok_def)

theorem pop_requires_nonempty_witness:
  "output_view_ok shared_engine
   \<and> stack shared_mesh = []
   \<and> pop shared_engine shared_mesh = Inl IndexError
   \<and> stack (shared_mesh\<lparr>stack := [[Complex 5 6, Complex 7 8]]\<rparr>) \<noteq> []
   \<and> length (last (stack (shared_mesh\<lparr>stack := [[Complex 5 6, Complex 7 8]]\<rparr>)))
       = length (view_output shared_engine
                  (buffer (shared_mesh\<lparr>stack := [[Complex 5 6, Complex 7 8]]\<rparr>)))
   \<and> pop shared_engine (shared_mesh\<lparr>stack := [[Complex 5 6, Complex 7 8]]\<rparr>)
       = Inr (shared_mesh\<lparr>buffer := [5, 6, 7, 8]\<rparr>)"
proof -
  have "stack shared_mesh = []
   \<and> pop shared_engine shared_mesh = Inl IndexError
   \<and> stack (shared_mesh\<lparr>stack := [[Complex 5 6, Complex 7 8]]\<rparr>) \<noteq> []
   \<and> length (last (stack (shared_mesh\<lparr>stack := [[Complex 5 6, Complex 7 8]]\<rparr>)))
       = length (view_output shared_engine
                  (buffer (shared_mesh\<lparr>stack := [[Complex 5 6, Complex 7 8]]\<rparr>)))
   \<and> pop shared_engine (shared_mesh\<lparr>stack := [[Complex 5 6, Complex 7 8]]\<rparr>)
       = Inr (shared_mesh\<lparr>buffer := [5, 6, 7, 8]\<rparr>)"
    using pop_requires_nonempty [OF shared_engine_output_view_ok, of shared_mesh]
      pop_requires_nonempty [OF shared_engine_output_view_ok,
        of "shared_mesh\<lparr>stack := [[Complex 5 6, Complex 7 8]]\<rparr>"]
    by (simp add: pop_def shared_mesh_def shared_engine_def cells_of_def)
  then show ?thesis using shared_engine_output_view_ok by simp
qed

text \<open>
  C10. readout(None) returns None, not an empty array, whatever cic.readout would
  compute (the kernel is not called), and the mesh state, the real view with it, is as
  before the call.
\<close>

theorem readout_None:
  "readout E None s = Inr (None, s)
   \<and> readout (E\<lparr>cic_readout := k\<rparr>) None s = readout E None s
   \<and> readout E None s \<noteq> Inr (Some [], s)"
  by (simp add: readout_def)

end
